theory Spec2Isabelle
  imports Main
begin

section \<open>The solver-chain planner of cvxpy/reductions/solvers/solving_chain.py\<close>

text \<open>
  The module holds one function, \<open>construct_solving_chain(problem, solver=None)\<close>, and
  one class, \<open>SolvingChain(Chain)\<close>. Exceptions are values of the type \<open>error\<close>: the
  ones the source raises itself (\<open>SolverError\<close>, \<open>DCPError\<close>, \<open>ValueError\<close>) and the ones
  the Python interpreter raises while it runs the source (\<open>KeyError\<close>, \<open>IndexError\<close>,
  \<open>AttributeError\<close>, \<open>NameError\<close>, \<open>TypeError\<close>). A function that can raise returns
  \<open>error + 'a\<close>, with \<open>Inl\<close> for the exception.
\<close>

subsection \<open>Data\<close>

text \<open>The constraint classes imported on line 1: \<open>SOC\<close>, \<open>ExpCone\<close>, \<open>PSD\<close>.\<close>

datatype cone = SOC | ExpCone | PSD

text \<open>
  The class of \<open>problem.objective\<close>, as \<open>type(...)\<close> returns it. \<open>Derived n b\<close> is a class
  named \<open>n\<close> that is declared with base class \<open>b\<close>.
\<close>

datatype objective_class = Minimize | Maximize | Derived string objective_class

fun issubclass :: "objective_class \<Rightarrow> objective_class \<Rightarrow> bool" where
  "issubclass Minimize d = (d = Minimize)"
| "issubclass Maximize d = (d = Maximize)"
| "issubclass (Derived n b) d = (d = Derived n b \<or> issubclass b d)"

text \<open>
  What the planner reads of a problem: the answers of \<open>is_dcp()\<close>, \<open>is_mip()\<close> and
  \<open>is_qp()\<close>, the class of the objective, and \<open>atoms()\<close> as the list of the classes
  of the atoms (the source only looks at \<open>type(atom)\<close>).
\<close>

record problem =
  is_dcp :: bool
  is_mip :: bool
  is_qp :: bool
  objective_type :: objective_class
  atoms :: "string list"

text \<open>
  A solver object, a value of \<open>SOLVER_MAP\<close>, with the attributes the source mentions;
  \<open>name\<close> tells two objects with the same capabilities apart.
\<close>

record solver_obj =
  name :: string
  MIP_CAPABLE :: bool
  SUPPORTED_CONSTRAINTS :: "cone list"

text \<open>
  The module-level names the function reads. \<open>SOLVER_MAP\<close>, \<open>INSTALLED_SOLVERS\<close>,
  \<open>CONIC_SOLVERS\<close> and \<open>QP_SOLVERS\<close> are imported from
  \<open>cvxpy.reductions.solvers.utilities\<close>; \<open>SOC_ATOMS\<close>, \<open>EXP_ATOMS\<close> and \<open>PSD_ATOMS\<close>
  are the tables that the comment on lines 82-83 leaves to be defined. All of them
  are parameters of the model. Solvers are named by strings: line 40 looks the
  requested name up in \<open>INSTALLED_SOLVERS\<close>, and line 53 uses the candidates as keys
  of \<open>SOLVER_MAP\<close>.
\<close>

record registry =
  SLV_MAP :: "string \<rightharpoonup> solver_obj"
  INSTALLED_SOLVERS :: "string list"
  CONIC_SOLVERS :: "string list"
  QP_SOLVERS :: "string list"
  SOC_ATOMS :: "string list"
  EXP_ATOMS :: "string list"
  PSD_ATOMS :: "string list"

text \<open>
  The elements of a chain. Line 94 appends the classes \<open>Dcp2Cone\<close> and
  \<open>ConeMatrixStuffing\<close> themselves and the solver object \<open>SLV_MAP[solver]\<close>; lines 67-69
  append instances.
\<close>

datatype reduction =
    FlipObjective
  | Qp2SymbolicQp
  | QpMatrixStuffing
  | QpSolver string
  | Dcp2Cone
  | ConeMatrixStuffing
  | SolverObj solver_obj

datatype error =
    SolverError_not_installed string
  | DCPError
  | SolverError_not_mip "string list"
  | SolverError_no_conic "string list"
  | SolverError_cones "string list" "cone list"
  | ValueError
  | KeyError string
  | IndexError
  | AttributeError string
  | NameError string
  | TypeError

subsection \<open>SolvingChain\<close>

text \<open>
  Modelled from the spec: the class \<open>Solver\<close> (cvxpy.reductions.solvers) is not among
  the sources. The terminal solver steps are the \<open>QpSolver\<close> instances and the solver
  objects of \<open>SOLVER_MAP\<close>; no other step is an instance of \<open>Solver\<close>.
\<close>

fun isinstance_Solver :: "reduction \<Rightarrow> bool" where
  "isinstance_Solver (QpSolver n) = True"
| "isinstance_Solver (SolverObj obj) = True"
| "isinstance_Solver r = False"

record chain =
  reductions :: "reduction list"
  problem_reductions :: "reduction list"
  solver :: reduction

text \<open>
  \<open>SolvingChain.__init__\<close>, lines 105-109, as a function of the instance and of the
  argument. The instance is the map of its attributes. The body never uses the
  parameter \<open>reductions\<close>: it reads the attribute \<open>self.reductions\<close>, which raises
  \<open>AttributeError\<close> when the instance has none; \<open>xs[-1]\<close> raises \<open>IndexError\<close> on an
  empty list, before \<open>isinstance\<close> is reached.
\<close>

definition SolvingChain_init ::
  "(string \<rightharpoonup> reduction list) \<Rightarrow> reduction list \<Rightarrow> error + chain" where
  "SolvingChain_init self rs =
     (case self ''reductions'' of
        None \<Rightarrow> Inl (AttributeError ''reductions'')
      | Some xs \<Rightarrow>
          if xs = [] then Inl IndexError
          else if \<not> isinstance_Solver (last xs) then Inl ValueError
          else Inr \<lparr>reductions = xs, problem_reductions = butlast xs, solver = last xs\<rparr>)"

text \<open>
  The call \<open>SolvingChain(reductions=rs)\<close>: Python creates the instance and runs
  \<open>__init__\<close> on it. Nothing has bound an attribute of the new instance by then: the
  class body assigns none, and lines 105-109 neither assign \<open>self.reductions\<close> nor
  call the constructor of \<open>Chain\<close>.
\<close>

definition SolvingChain :: "reduction list \<Rightarrow> error + chain" where
  "SolvingChain rs = SolvingChain_init Map.empty rs"

subsection \<open>construct_solving_chain\<close>

text \<open>Lines 39-44: the candidates, or the error of an uninstalled solver.\<close>

definition resolve_candidates :: "registry \<Rightarrow> string option \<Rightarrow> error + string list" where
  "resolve_candidates env requested =
     (case requested of
        Some n \<Rightarrow>
          if n \<notin> set (INSTALLED_SOLVERS env) then Inl (SolverError_not_installed n)
          else Inr [n]
      | None \<Rightarrow> Inr (INSTALLED_SOLVERS env))"

text \<open>
  Line 53, \<open>[s for s in candidates if SLV_MAP[s].MIP_CAPABLE]\<close>: the comprehension
  runs from the left, and a name that is no key of the dictionary raises
  \<open>KeyError\<close>.
\<close>

fun filter_mip :: "(string \<rightharpoonup> solver_obj) \<Rightarrow> string list \<Rightarrow> error + string list" where
  "filter_mip m [] = Inr []"
| "filter_mip m (s # ss) =
     (case m s of
        None \<Rightarrow> Inl (KeyError s)
      | Some obj \<Rightarrow>
          (case filter_mip m ss of
             Inl e \<Rightarrow> Inl e
           | Inr r \<Rightarrow> Inr (if MIP_CAPABLE obj then s # r else r)))"

text \<open>
  The value of \<open>candidates\<close> after line 53, when the function gets that far: lines 39-44,
  the DCP check of lines 50-51, and the filter of line 53 for a mixed-integer problem.
\<close>

definition narrowed_candidates ::
  "registry \<Rightarrow> problem \<Rightarrow> string option \<Rightarrow> error + string list" where
  "narrowed_candidates env p requested =
     (case resolve_candidates env requested of
        Inl e \<Rightarrow> Inl e
      | Inr candidates \<Rightarrow>
          if \<not> is_dcp p then Inl DCPError
          else if is_mip p then filter_mip (SLV_MAP env) candidates
          else Inr candidates)"

text \<open>Lines 60-62: the flip is added when the objective's class is \<open>Maximize\<close> itself.\<close>

definition initial_reductions :: "problem \<Rightarrow> reduction list" where
  "initial_reductions p = (if objective_type p = Maximize then [FlipObjective] else [])"

text \<open>
  \<open>xs.index(s)\<close>, the first position of \<open>s\<close>. The key functions of lines 66 and 92 call
  it only on elements that lines 64 and 72 took from \<open>xs\<close> itself, so the \<open>ValueError\<close>
  of a missing element does not arise; \<open>sorted\<close> is stable, as \<open>sort_key\<close> is.
\<close>

fun index :: "'a list \<Rightarrow> 'a \<Rightarrow> nat" where
  "index [] x = 0"
| "index (y # ys) x = (if x = y then 0 else Suc (index ys x))"

text \<open>
  Line 66 reads \<open>sorted(candidate_qp_solvers, key s: QP_SOLVERS.index(s))\<close>, which is
  not Python; the model reads it as \<open>key=lambda s: QP_SOLVERS.index(s)\<close>, the form of
  line 92. The name \<open>solver\<close> is then bound to the whole sorted list, and line 69
  evaluates \<open>solver.name\<close>: a list has no attribute \<open>name\<close>.
\<close>

definition list_getattr_name :: "string list \<Rightarrow> error + string" where
  "list_getattr_name xs = Inl (AttributeError ''name'')"

text \<open>
  Lines 80-89: the cones of the problem, from the classes of its atoms and the three
  tables.
\<close>

definition required_cones :: "registry \<Rightarrow> string list \<Rightarrow> cone list" where
  "required_cones env ats =
     (if list_ex (\<lambda>a. a \<in> set (SOC_ATOMS env)) ats then [SOC] else []) @
     (if list_ex (\<lambda>a. a \<in> set (EXP_ATOMS env)) ats then [ExpCone] else []) @
     (if list_ex (\<lambda>a. a \<in> set (PSD_ATOMS env)) ats then [PSD] else [])"

text \<open>
  \<open>all(... for c in cones)\<close>: the generator is consumed from the left and stops at the
  first false element; an exception of an element leaves \<open>all\<close>. No element is evaluated
  when \<open>cones\<close> is empty.
\<close>

fun all_py :: "('a \<Rightarrow> error + bool) \<Rightarrow> 'a list \<Rightarrow> error + bool" where
  "all_py f [] = Inr True"
| "all_py f (c # cs) =
     (case f c of
        Inl e \<Rightarrow> Inl e
      | Inr b \<Rightarrow> if b then all_py f cs else Inr False)"

text \<open>
  The element of line 93 is \<open>c in s.SUPPORTED_CONSTRAINTS\<close>. The loop variable of line
  91 is \<open>solver\<close>; \<open>s\<close> is bound only inside the comprehensions of lines 53, 64 and 72
  and the key function, each a scope of its own in Python 3, so that the name is
  unbound here and its evaluation raises \<open>NameError\<close>. (Python 2 leaves the \<open>s\<close> of line
  72 bound to the last name of \<open>CONIC_SOLVERS\<close>, a string: the attribute access then
  raises \<open>AttributeError\<close>, at the same place.)
\<close>

definition c_in_s_SUPPORTED_CONSTRAINTS :: "cone \<Rightarrow> error + bool" where
  "c_in_s_SUPPORTED_CONSTRAINTS c = Inl (NameError ''s'')"

text \<open>
  Both return statements of the function, lines 70 and 95, are
  \<open>return SolvingChain(reductions=reductions)\<close>. The next three functions compute the
  argument of that call, the step list the function has assembled, or the exception
  raised before the call; \<open>construct_solving_chain\<close> then calls the constructor.
\<close>

text \<open>
  Lines 91-98: the loop over the sorted conic candidates, and the error after it.
  \<open>tried\<close> is \<open>candidate_conic_solvers\<close>, for the message; the message joins \<open>cones\<close>
  with \<open>', '.join\<close>, which raises \<open>TypeError\<close> on a list that holds classes.
\<close>

fun conic_loop ::
  "registry \<Rightarrow> reduction list \<Rightarrow> cone list \<Rightarrow> string list \<Rightarrow> string list \<Rightarrow>
     error + reduction list" where
  "conic_loop env rs cones tried [] =
     (if cones = [] then Inl (SolverError_cones tried cones) else Inl TypeError)"
| "conic_loop env rs cones tried (slv # rest) =
     (case all_py c_in_s_SUPPORTED_CONSTRAINTS cones of
        Inl e \<Rightarrow> Inl e
      | Inr ok \<Rightarrow>
          if ok then
            (case SLV_MAP env slv of
               None \<Rightarrow> Inl (KeyError slv)
             | Some obj \<Rightarrow> Inr (rs @ [Dcp2Cone, ConeMatrixStuffing, SolverObj obj]))
          else conic_loop env rs cones tried rest)"

text \<open>Lines 60-94, from the candidates that passed the checks above.\<close>

definition choose_reductions ::
  "registry \<Rightarrow> problem \<Rightarrow> string list \<Rightarrow> error + reduction list" where
  "choose_reductions env p candidates =
     (let rs = initial_reductions p;
          candidate_qp_solvers = filter (\<lambda>s. s \<in> set candidates) (QP_SOLVERS env)
      in if candidate_qp_solvers \<noteq> [] \<and> is_qp p then
           (case list_getattr_name (sort_key (index (QP_SOLVERS env)) candidate_qp_solvers) of
              Inl e \<Rightarrow> Inl e
            | Inr nm \<Rightarrow> Inr (rs @ [Qp2SymbolicQp, QpMatrixStuffing, QpSolver nm]))
         else
           (let candidate_conic_solvers = filter (\<lambda>s. s \<in> set candidates) (CONIC_SOLVERS env)
            in if candidate_conic_solvers = [] then Inl (SolverError_no_conic candidates)
               else conic_loop env rs (required_cones env (atoms p)) candidate_conic_solvers
                      (sort_key (index (CONIC_SOLVERS env)) candidate_conic_solvers)))"

text \<open>
  Lines 39-94: the step list handed to the constructor. Lines 54-57 raise inside the
  branch of a mixed-integer problem, with the filtered list in the message.
\<close>

definition chain_reductions ::
  "registry \<Rightarrow> problem \<Rightarrow> string option \<Rightarrow> error + reduction list" where
  "chain_reductions env p requested =
     (case narrowed_candidates env p requested of
        Inl e \<Rightarrow> Inl e
      | Inr candidates \<Rightarrow>
          if is_mip p \<and> candidates = [] then Inl (SolverError_not_mip candidates)
          else choose_reductions env p candidates)"

text \<open>The whole function.\<close>

definition construct_solving_chain ::
  "registry \<Rightarrow> problem \<Rightarrow> string option \<Rightarrow> error + chain" where
  "construct_solving_chain env p requested =
     (case chain_reductions env p requested of
        Inl e \<Rightarrow> Inl e
      | Inr rs \<Rightarrow> SolvingChain rs)"

text \<open>
  A \<open>SolvingChain\<close> object with the attributes of lines 108-109 for the step list that
  line 94 assembles for the solver object \<open>obj\<close>; it stands for the receiver of a call
  of \<open>solve\<close> below.
\<close>

definition conic_chain :: "problem \<Rightarrow> solver_obj \<Rightarrow> chain" where
  "conic_chain p obj =
     \<lparr>reductions = initial_reductions p @ [Dcp2Cone, ConeMatrixStuffing, SolverObj obj],
      problem_reductions = initial_reductions p @ [Dcp2Cone, ConeMatrixStuffing],
      solver = SolverObj obj\<rparr>"

subsection \<open>SolvingChain.solve\<close>

text \<open>
  Line 111 declares \<open>solve(problem, warm_start, verbose, solver_opts)\<close> in the class
  body: four parameters, none of them for the instance. A call
  \<open>chain.solve(a1, ..., an)\<close> passes the instance as the first positional argument, so
  the function receives \<open>n + 1\<close> arguments; with any number but four Python raises
  \<open>TypeError\<close> before the body runs. With four, line 112 evaluates the name \<open>self\<close>,
  which no parameter and no assignment binds: \<open>NameError\<close>. The body never gets to
  \<open>apply\<close>, \<open>solve_via_data\<close> or \<open>invert\<close>.
\<close>

datatype pyvalue =
    ChainV chain
  | ProblemV problem
  | BoolV bool
  | DictV "(string \<times> string) list"

definition solve :: "pyvalue list \<Rightarrow> error + pyvalue" where
  "solve args = (if length args \<noteq> 4 then Inl TypeError else Inl (NameError ''self''))"

definition method_call_solve :: "chain \<Rightarrow> pyvalue list \<Rightarrow> error + pyvalue" where
  "method_call_solve c args = solve (ChainV c # args)"

subsection \<open>Concrete registries and problems\<close>

definition ecos :: solver_obj where
  "ecos = \<lparr>name = ''ECOS'', MIP_CAPABLE = False, SUPPORTED_CONSTRAINTS = [SOC, ExpCone]\<rparr>"

definition scs :: solver_obj where
  "scs = \<lparr>name = ''SCS'', MIP_CAPABLE = False, SUPPORTED_CONSTRAINTS = []\<rparr>"

definition ecos_bb :: solver_obj where
  "ecos_bb = \<lparr>name = ''ECOS_BB'', MIP_CAPABLE = True, SUPPORTED_CONSTRAINTS = [SOC, ExpCone]\<rparr>"

definition osqp :: solver_obj where
  "osqp = \<lparr>name = ''OSQP'', MIP_CAPABLE = False, SUPPORTED_CONSTRAINTS = []\<rparr>"

definition reg :: registry where
  "reg = \<lparr>SLV_MAP = map_of [(''ECOS'', ecos), (''SCS'', scs), (''ECOS_BB'', ecos_bb),
                             (''OSQP'', osqp)],
          INSTALLED_SOLVERS = [''OSQP'', ''ECOS'', ''SCS'', ''ECOS_BB''],
          CONIC_SOLVERS = [''ECOS'', ''SCS'', ''ECOS_BB''],
          QP_SOLVERS = [''OSQP''],
          SOC_ATOMS = [''norm2'', ''quad_over_lin''],
          EXP_ATOMS = [''exp'', ''log''],
          PSD_ATOMS = [''lambda_max'']\<rparr>"

text \<open>A registry whose only installed solver is the QP solver.\<close>

definition reg_osqp :: registry where
  "reg_osqp = reg\<lparr>INSTALLED_SOLVERS := [''OSQP'']\<rparr>"

text \<open>
  Two conic solvers, \<open>A\<close> before \<open>B\<close>: \<open>A\<close> supports the second-order cone, \<open>B\<close> supports
  no cone, and neither is MIP-capable.
\<close>

definition solver_A :: solver_obj where
  "solver_A = \<lparr>name = ''A'', MIP_CAPABLE = False, SUPPORTED_CONSTRAINTS = [SOC]\<rparr>"

definition solver_B :: solver_obj where
  "solver_B = \<lparr>name = ''B'', MIP_CAPABLE = False, SUPPORTED_CONSTRAINTS = []\<rparr>"

definition reg_AB :: registry where
  "reg_AB = \<lparr>SLV_MAP = map_of [(''A'', solver_A), (''B'', solver_B)],
             INSTALLED_SOLVERS = [''B'', ''A''],
             CONIC_SOLVERS = [''A'', ''B''],
             QP_SOLVERS = [],
             SOC_ATOMS = [''norm2'', ''quad_over_lin''],
             EXP_ATOMS = [''exp'', ''log''],
             PSD_ATOMS = [''lambda_max'']\<rparr>"

definition linear_min :: problem where
  "linear_min = \<lparr>is_dcp = True, is_mip = False, is_qp = True, objective_type = Minimize,
                 atoms = []\<rparr>"

definition quad_min :: problem where
  "quad_min = \<lparr>is_dcp = True, is_mip = False, is_qp = True, objective_type = Minimize,
               atoms = [''quad_form'']\<rparr>"

definition soc_min :: problem where
  "soc_min = \<lparr>is_dcp = True, is_mip = False, is_qp = False, objective_type = Minimize,
              atoms = [''norm2'']\<rparr>"

definition mip_min :: problem where
  "mip_min = \<lparr>is_dcp = True, is_mip = True, is_qp = False, objective_type = Minimize,
              atoms = []\<rparr>"

definition abs_min :: problem where
  "abs_min = \<lparr>is_dcp = True, is_mip = False, is_qp = False, objective_type = Minimize,
              atoms = [''abs'']\<rparr>"

definition abs_max :: problem where
  "abs_max = \<lparr>is_dcp = True, is_mip = False, is_qp = False, objective_type = Maximize,
              atoms = [''abs'']\<rparr>"

definition abs_submax :: problem where
  "abs_submax = \<lparr>is_dcp = True, is_mip = False, is_qp = False,
                 objective_type = Derived ''MaximizeProfit'' Maximize, atoms = [''abs'']\<rparr>"

definition not_dcp :: problem where
  "not_dcp = \<lparr>is_dcp = False, is_mip = True, is_qp = False, objective_type = Minimize,
              atoms = [''sqrt'']\<rparr>"

lemmas problems_defs =
  linear_min_def quad_min_def soc_min_def mip_min_def abs_min_def abs_max_def abs_submax_def
  not_dcp_def

lemmas registry_defs = reg_def reg_osqp_def reg_AB_def

lemmas planner_defs =
  construct_solving_chain_def chain_reductions_def narrowed_candidates_def
  resolve_candidates_def choose_reductions_def initial_reductions_def required_cones_def
  list_getattr_name_def c_in_s_SUPPORTED_CONSTRAINTS_def SolvingChain_def
  SolvingChain_init_def conic_chain_def

section \<open>Properties\<close>

subsection \<open>Auxiliary facts\<close>

lemma resolve_candidates_missing:
  "n \<notin> set (INSTALLED_SOLVERS env) \<Longrightarrow>
     resolve_candidates env (Some n) = Inl (SolverError_not_installed n)"
  by (simp add: resolve_candidates_def)

lemma filter_mip_Inr:
  "filter_mip m xs = Inr r \<Longrightarrow>
     r = filter (\<lambda>s. \<exists>obj. m s = Some obj \<and> MIP_CAPABLE obj) xs"
  by (induction xs arbitrary: r) (auto split: option.splits sum.splits if_splits)

lemma narrowed_candidates_mip:
  assumes "is_mip p" and "narrowed_candidates env p requested = Inr cs"
  shows "\<exists>cands. resolve_candidates env requested = Inr cands \<and>
           filter_mip (SLV_MAP env) cands = Inr cs"
  using assms by (auto simp: narrowed_candidates_def split: sum.splits if_splits)

text \<open>One pass of the loop of lines 91-95: it returns or raises on its first candidate.\<close>

lemma conic_loop_Cons:
  "conic_loop env rs cones tried (slv # rest) =
     (if cones = [] then
        (case SLV_MAP env slv of
           None \<Rightarrow> Inl (KeyError slv)
         | Some obj \<Rightarrow> Inr (rs @ [Dcp2Cone, ConeMatrixStuffing, SolverObj obj]))
      else Inl (NameError ''s''))"
  by (cases cones) (simp_all add: c_in_s_SUPPORTED_CONSTRAINTS_def)

lemma sort_key_first:
  assumes "xs \<noteq> []"
  obtains x rest where "sort_key f xs = x # rest" "x \<in> set xs"
    "\<And>y. y \<in> set xs \<Longrightarrow> f x \<le> f y"
proof -
  have ne: "sort_key f xs \<noteq> []"
    using assms by (metis set_empty set_sort)
  then obtain x rest where eq: "sort_key f xs = x # rest"
    by (cases "sort_key f xs") auto
  have srt: "sorted (map f (x # rest))"
    using sorted_sort_key [of f xs] eq by simp
  have mem: "x \<in> set xs"
    using set_sort [of f xs] eq by auto
  have least: "f x \<le> f y" if "y \<in> set xs" for y
  proof -
    from that have "y \<in> set (x # rest)"
      using set_sort [of f xs] eq by auto
    with srt show ?thesis by auto
  qed
  from eq mem least show ?thesis by (rule that)
qed

lemma index_inj:
  "x \<in> set xs \<Longrightarrow> y \<in> set xs \<Longrightarrow> index xs x = index xs y \<Longrightarrow> x = y"
  by (induction xs) (auto split: if_splits)

text \<open>
  The branch of lines 65-70 raises whenever it is entered, before the step list is
  extended: no chain comes out of the QP pipeline.
\<close>

lemma qp_branch_raises:
  assumes "filter (\<lambda>s. s \<in> set candidates) (QP_SOLVERS env) \<noteq> []" and "is_qp p"
  shows "choose_reductions env p candidates = Inl (AttributeError ''name'')"
  using assms by (simp add: choose_reductions_def Let_def list_getattr_name_def)

text \<open>The conic branch raises whenever the problem needs a cone.\<close>

lemma conic_branch_raises:
  assumes "\<not> (filter (\<lambda>s. s \<in> set candidates) (QP_SOLVERS env) \<noteq> [] \<and> is_qp p)"
    and "filter (\<lambda>s. s \<in> set candidates) (CONIC_SOLVERS env) \<noteq> []"
    and "required_cones env (atoms p) \<noteq> []"
  shows "choose_reductions env p candidates = Inl (NameError ''s'')"
proof -
  let ?conic = "filter (\<lambda>s. s \<in> set candidates) (CONIC_SOLVERS env)"
  obtain slv rest where eq: "sort_key (index (CONIC_SOLVERS env)) ?conic = slv # rest"
    using sort_key_first [OF assms(2)] by blast
  show ?thesis
    using assms eq
    by (auto simp: choose_reductions_def Let_def conic_loop_Cons simp del: conic_loop.simps)
qed

text \<open>
  For a problem that needs no cone, the conic branch takes the candidate that comes
  first in \<open>CONIC_SOLVERS\<close>, whatever cones it supports.
\<close>

lemma conic_branch_no_cones:
  assumes "\<not> (filter (\<lambda>s. s \<in> set candidates) (QP_SOLVERS env) \<noteq> [] \<and> is_qp p)"
    and "filter (\<lambda>s. s \<in> set candidates) (CONIC_SOLVERS env) \<noteq> []"
    and "required_cones env (atoms p) = []"
  shows "\<exists>slv. slv \<in> set candidates \<and> slv \<in> set (CONIC_SOLVERS env) \<and>
           (\<forall>t. t \<in> set candidates \<and> t \<in> set (CONIC_SOLVERS env) \<longrightarrow>
                index (CONIC_SOLVERS env) slv \<le> index (CONIC_SOLVERS env) t) \<and>
           choose_reductions env p candidates =
             (case SLV_MAP env slv of
                None \<Rightarrow> Inl (KeyError slv)
              | Some obj \<Rightarrow>
                  Inr (initial_reductions p @ [Dcp2Cone, ConeMatrixStuffing, SolverObj obj]))"
proof -
  let ?conic = "filter (\<lambda>s. s \<in> set candidates) (CONIC_SOLVERS env)"
  obtain slv rest where eq: "sort_key (index (CONIC_SOLVERS env)) ?conic = slv # rest"
    and mem: "slv \<in> set ?conic"
    and least: "\<And>y. y \<in> set ?conic \<Longrightarrow>
                  index (CONIC_SOLVERS env) slv \<le> index (CONIC_SOLVERS env) y"
    using sort_key_first [OF assms(2)] by blast
  have "choose_reductions env p candidates =
          (case SLV_MAP env slv of
             None \<Rightarrow> Inl (KeyError slv)
           | Some obj \<Rightarrow>
               Inr (initial_reductions p @ [Dcp2Cone, ConeMatrixStuffing, SolverObj obj]))"
    using assms eq
    by (auto simp: choose_reductions_def Let_def conic_loop_Cons
        simp del: conic_loop.simps split: option.splits)
  with mem least show ?thesis
    by auto
qed

text \<open>
  Every step list that lines 60-94 hand to the constructor is the conic one of the
  candidate that comes first in \<open>CONIC_SOLVERS\<close>, for a problem that needs no cone.
\<close>

lemma choose_reductions_Inr:
  assumes "choose_reductions env p candidates = Inr rs"
  shows "\<exists>slv obj. slv \<in> set candidates \<and> slv \<in> set (CONIC_SOLVERS env) \<and>
           SLV_MAP env slv = Some obj \<and>
           rs = initial_reductions p @ [Dcp2Cone, ConeMatrixStuffing, SolverObj obj] \<and>
           required_cones env (atoms p) = [] \<and>
           (\<forall>t. t \<in> set candidates \<and> t \<in> set (CONIC_SOLVERS env) \<longrightarrow>
                index (CONIC_SOLVERS env) slv \<le> index (CONIC_SOLVERS env) t)"
proof -
  let ?qp = "filter (\<lambda>s. s \<in> set candidates) (QP_SOLVERS env)"
  let ?conic = "filter (\<lambda>s. s \<in> set candidates) (CONIC_SOLVERS env)"
  have noqp: "\<not> (?qp \<noteq> [] \<and> is_qp p)"
    using assms by (auto simp: choose_reductions_def Let_def list_getattr_name_def)
  have ne: "?conic \<noteq> []"
    using assms noqp by (auto simp: choose_reductions_def Let_def split: if_splits)
  obtain slv rest where eq: "sort_key (index (CONIC_SOLVERS env)) ?conic = slv # rest"
    and mem: "slv \<in> set ?conic"
    and least: "\<And>y. y \<in> set ?conic \<Longrightarrow>
                  index (CONIC_SOLVERS env) slv \<le> index (CONIC_SOLVERS env) y"
    using sort_key_first [OF ne] by blast
  have loop: "conic_loop env (initial_reductions p) (required_cones env (atoms p)) ?conic
                (slv # rest) = Inr rs"
    using assms noqp ne eq by (simp add: choose_reductions_def Let_def)
  have cones: "required_cones env (atoms p) = []"
    using loop by (simp add: conic_loop_Cons del: conic_loop.simps split: if_splits)
  obtain obj where obj: "SLV_MAP env slv = Some obj"
    and rs: "rs = initial_reductions p @ [Dcp2Cone, ConeMatrixStuffing, SolverObj obj]"
    using loop cones
    by (auto simp: conic_loop_Cons simp del: conic_loop.simps split: option.splits)
  show ?thesis
    using mem obj rs cones least by auto
qed

lemma chain_reductions_Inr:
  assumes "chain_reductions env p requested = Inr rs"
  obtains cs where "narrowed_candidates env p requested = Inr cs"
    and "choose_reductions env p cs = Inr rs"
  using assms by (auto simp: chain_reductions_def split: sum.splits if_splits)

lemma chain_reductions_shape:
  assumes "chain_reductions env p requested = Inr rs"
  obtains obj where "rs = initial_reductions p @ [Dcp2Cone, ConeMatrixStuffing, SolverObj obj]"
  using assms choose_reductions_Inr by (elim chain_reductions_Inr) blast

text \<open>
  The constructor of lines 105-109 raises on every call, so the function returns no
  chain: it raises what was raised before the call, or the \<open>AttributeError\<close> of line
  106.
\<close>

lemma SolvingChain_raises:
  "SolvingChain rs = Inl (AttributeError ''reductions'')"
  by (simp add: SolvingChain_def SolvingChain_init_def)

lemma construct_solving_chain_raises:
  "construct_solving_chain env p requested =
     (case chain_reductions env p requested of
        Inl e \<Rightarrow> Inl e
      | Inr rs \<Rightarrow> Inl (AttributeError ''reductions''))"
  by (simp add: construct_solving_chain_def SolvingChain_raises split: sum.splits)

text \<open>
  On an instance whose attribute \<open>reductions\<close> is bound, the body accepts exactly the
  non-empty sequences that end in a solver.
\<close>

lemma SolvingChain_init_Inr:
  "SolvingChain_init self rs = Inr c \<longleftrightarrow>
     (\<exists>xs. self ''reductions'' = Some xs \<and> xs \<noteq> [] \<and> isinstance_Solver (last xs) \<and>
        c = \<lparr>reductions = xs, problem_reductions = butlast xs, solver = last xs\<rparr>)"
  by (auto simp: SolvingChain_init_def split: option.splits)

lemma SolvingChain_init_not_Solver:
  "self ''reductions'' = Some xs \<Longrightarrow> xs \<noteq> [] \<Longrightarrow> \<not> isinstance_Solver (last xs) \<Longrightarrow>
     SolvingChain_init self rs = Inl ValueError"
  by (simp add: SolvingChain_init_def)

subsection \<open>The claims\<close>

text \<open>
  C1. The claim: for a DCP problem that \<open>is_qp()\<close> accepts, with a QP solver among
  the candidates, the function returns the chain
  \<open>[FlipObjective?], Qp2SymbolicQp, QpMatrixStuffing, QpSolver\<close> of the QP candidate that
  comes first in \<open>QP_SOLVERS\<close>. The source does not: on the quadratic problem
  \<open>quad_min\<close>, with the QP solver OSQP installed, line 69 raises \<open>AttributeError\<close>
  (\<open>solver\<close> is the sorted list, and a list has no \<open>name\<close>), and no chain is returned.
\<close>

theorem qp_pipeline_raises_on_quad_min:
  "construct_solving_chain reg quad_min None = Inl (AttributeError ''name'')"
  by (simp add: planner_defs registry_defs problems_defs)

text \<open>
  C2. The claim: on the conic path the function returns the chain of the first
  candidate, in the order of \<open>CONIC_SOLVERS\<close>, that supports every cone of the problem.
  The source does not when the problem needs a cone: with the solvers \<open>A\<close> (supports
  the second-order cone) before \<open>B\<close> (supports none) and a problem with a \<open>norm2\<close>
  atom, line 93 evaluates the unbound name \<open>s\<close> and raises \<open>NameError\<close>, where the
  claim selects \<open>A\<close>. For a problem without cones the step list of the first candidate
  is assembled (\<open>conic_branch_no_cones\<close>, and the second equation below), and the
  constructor then raises.
\<close>

theorem conic_pipeline_raises_on_soc_min:
  "construct_solving_chain reg_AB soc_min None = Inl (NameError ''s'') \<and>
   chain_reductions reg_AB abs_min None =
     Inr [Dcp2Cone, ConeMatrixStuffing, SolverObj solver_A] \<and>
   construct_solving_chain reg_AB abs_min None = Inl (AttributeError ''reductions'')"
  by (simp add: planner_defs registry_defs problems_defs)

text \<open>
  C3, as stated: a problem that is not DCP always fails with \<open>DCPError\<close>, also when
  a solver name is requested. It does not when the requested solver is not installed:
  the check of lines 39-42 comes first and raises \<open>SolverError\<close>.
\<close>

theorem not_dcp_counterexample:
  "\<not> is_dcp not_dcp \<and>
   construct_solving_chain reg not_dcp (Some ''GUROBI'') \<noteq> Inl DCPError"
  by (simp add: planner_defs registry_defs problems_defs)

text \<open>
  C3, amended: for a problem that is not DCP, the function raises \<open>DCPError\<close> whenever no
  solver is requested or the requested solver is installed, whatever the installed
  solvers, their capabilities and the rest of the problem are.
\<close>

theorem not_dcp_raises_DCPError:
  assumes "\<not> is_dcp p"
    and "requested = None \<or> (\<exists>n. requested = Some n \<and> n \<in> set (INSTALLED_SOLVERS env))"
  shows "construct_solving_chain env p requested = Inl DCPError"
  using assms
  by (auto simp: construct_solving_chain_def chain_reductions_def narrowed_candidates_def
      resolve_candidates_def)

theorem not_dcp_raises_DCPError_witness:
  "\<not> is_dcp not_dcp \<and> ''ECOS'' \<in> set (INSTALLED_SOLVERS reg) \<and>
   construct_solving_chain reg not_dcp (Some ''ECOS'') = Inl DCPError \<and>
   construct_solving_chain reg not_dcp None = Inl DCPError"
proof -
  have a: "\<not> is_dcp not_dcp"
    by (simp add: not_dcp_def)
  have b: "''ECOS'' \<in> set (INSTALLED_SOLVERS reg)"
    by (simp add: reg_def)
  have "construct_solving_chain reg not_dcp (Some ''ECOS'') = Inl DCPError"
    using not_dcp_raises_DCPError [of not_dcp "Some ''ECOS''" reg] a b by simp
  moreover have "construct_solving_chain reg not_dcp None = Inl DCPError"
    using not_dcp_raises_DCPError [of not_dcp None reg] a by simp
  ultimately show ?thesis
    using a b by simp
qed

text \<open>
  C4. When a solver name is requested that is not in \<open>INSTALLED_SOLVERS\<close>, the function
  raises the \<open>SolverError\<close> that names it, whatever the problem is: no other check is made
  first, so the same error is raised for a problem that is not DCP.
\<close>

theorem unavailable_solver_first:
  "n \<notin> set (INSTALLED_SOLVERS env) \<Longrightarrow>
     construct_solving_chain env p (Some n) = Inl (SolverError_not_installed n)"
  by (simp add: construct_solving_chain_def chain_reductions_def narrowed_candidates_def
      resolve_candidates_missing)

theorem unavailable_solver_first_witness:
  "''X'' \<notin> set (INSTALLED_SOLVERS reg) \<and> \<not> is_dcp not_dcp \<and>
   construct_solving_chain reg not_dcp (Some ''X'') = Inl (SolverError_not_installed ''X'')"
  using unavailable_solver_first [of "''X''" reg not_dcp]
  by (simp add: reg_def not_dcp_def)

text \<open>
  C5. For a mixed-integer problem, the candidates that reach line 54 are the
  resolved candidates whose solver object is MIP-capable, in their order; when that
  list is empty the function raises the \<open>SolverError\<close> of lines 55-57, which carries the
  narrowed (empty) list; otherwise the choice of the pipeline sees the narrowed list
  only; and every step list that the function hands to the constructor for a
  mixed-integer problem ends in a solver object that is MIP-capable.
\<close>

theorem mip_candidates_narrowed:
  assumes "is_mip p"
  shows "(\<forall>cs. narrowed_candidates env p requested = Inr cs \<longrightarrow>
            (\<exists>cands. resolve_candidates env requested = Inr cands \<and>
               cs = filter (\<lambda>s. \<exists>obj. SLV_MAP env s = Some obj \<and> MIP_CAPABLE obj) cands) \<and>
            (cs = [] \<longrightarrow>
               construct_solving_chain env p requested = Inl (SolverError_not_mip cs)) \<and>
            (cs \<noteq> [] \<longrightarrow>
               chain_reductions env p requested = choose_reductions env p cs)) \<and>
         (\<forall>rs. chain_reductions env p requested = Inr rs \<longrightarrow>
            rs \<noteq> [] \<and> (\<exists>obj. last rs = SolverObj obj \<and> MIP_CAPABLE obj))"
proof (intro conjI allI impI)
  fix cs
  assume n: "narrowed_candidates env p requested = Inr cs"
  from narrowed_candidates_mip [OF assms n] filter_mip_Inr
  show "\<exists>cands. resolve_candidates env requested = Inr cands \<and>
          cs = filter (\<lambda>s. \<exists>obj. SLV_MAP env s = Some obj \<and> MIP_CAPABLE obj) cands"
    by blast
  {
    assume "cs = []"
    with assms n
    show "construct_solving_chain env p requested = Inl (SolverError_not_mip cs)"
      by (simp add: construct_solving_chain_def chain_reductions_def)
  }
  {
    assume "cs \<noteq> []"
    with n
    show "chain_reductions env p requested = choose_reductions env p cs"
      by (simp add: chain_reductions_def)
  }
next
  fix rs
  assume r: "chain_reductions env p requested = Inr rs"
  then obtain cs where n: "narrowed_candidates env p requested = Inr cs"
    and ch: "choose_reductions env p cs = Inr rs"
    by (rule chain_reductions_Inr)
  from choose_reductions_Inr [OF ch] obtain slv obj
    where mem: "slv \<in> set cs" and obj: "SLV_MAP env slv = Some obj"
      and rs: "rs = initial_reductions p @ [Dcp2Cone, ConeMatrixStuffing, SolverObj obj]"
    by blast
  from narrowed_candidates_mip [OF assms n] filter_mip_Inr obtain cands
    where "cs = filter (\<lambda>s. \<exists>obj. SLV_MAP env s = Some obj \<and> MIP_CAPABLE obj) cands"
    by blast
  with mem obj have "MIP_CAPABLE obj"
    by auto
  with rs show "rs \<noteq> []" and "\<exists>obj. last rs = SolverObj obj \<and> MIP_CAPABLE obj"
    by simp_all
qed

theorem mip_candidates_narrowed_witness:
  "is_mip mip_min \<and>
   narrowed_candidates reg mip_min None = Inr [''ECOS_BB''] \<and>
   chain_reductions reg mip_min None =
     Inr [Dcp2Cone, ConeMatrixStuffing, SolverObj ecos_bb] \<and>
   MIP_CAPABLE ecos_bb \<and>
   narrowed_candidates reg_AB mip_min None = Inr [] \<and>
   construct_solving_chain reg_AB mip_min None = Inl (SolverError_not_mip [])"
proof -
  have m: "is_mip mip_min"
    by (simp add: mip_min_def)
  have n1: "narrowed_candidates reg mip_min None = Inr [''ECOS_BB'']"
    by (simp add: planner_defs registry_defs problems_defs ecos_def scs_def ecos_bb_def osqp_def)
  have n2: "narrowed_candidates reg_AB mip_min None = Inr []"
    by (simp add: planner_defs registry_defs problems_defs solver_A_def solver_B_def)
  have c1: "choose_reductions reg mip_min [''ECOS_BB''] =
              Inr [Dcp2Cone, ConeMatrixStuffing, SolverObj ecos_bb]"
    by (simp add: planner_defs registry_defs problems_defs)
  have r1: "chain_reductions reg mip_min None =
              Inr [Dcp2Cone, ConeMatrixStuffing, SolverObj ecos_bb]"
    using mip_candidates_narrowed [OF m, of reg None] n1 c1 by simp
  have "\<exists>obj. last [Dcp2Cone, ConeMatrixStuffing, SolverObj ecos_bb] = SolverObj obj \<and>
          MIP_CAPABLE obj"
    using mip_candidates_narrowed [OF m, of reg None] r1 by blast
  then have k: "MIP_CAPABLE ecos_bb"
    by simp
  have r2: "construct_solving_chain reg_AB mip_min None = Inl (SolverError_not_mip [])"
    using mip_candidates_narrowed [OF m, of reg_AB None] n2 by simp
  from m n1 r1 k n2 r2 show ?thesis
    by simp
qed




text \<open>
  C7. The claim: constructing a \<open>SolvingChain\<close> with an empty sequence fails with the
  error of a chain that does not end in a solver (the \<open>ValueError\<close> of line 107). The
  source fails on line 106, before the check is made: with \<open>AttributeError\<close> as the
  code stands, since \<open>self.reductions\<close> is unbound, and with \<open>IndexError\<close> at \<open>[-1]\<close>
  on an instance whose attribute holds the empty sequence.
\<close>

theorem empty_chain_raises_before_guard:
  "SolvingChain [] = Inl (AttributeError ''reductions'') \<and>
   SolvingChain_init [''reductions'' \<mapsto> []] [] = Inl IndexError"
  by (simp add: SolvingChain_def SolvingChain_init_def)

text \<open>
  C8. The claim: \<open>solve\<close> runs \<open>apply\<close>, the solver and \<open>invert\<close>, and on a linear
  problem with one candidate, a QP solver, its result is the inverted solver output.
  The source does neither: for the linear problem and the registry with OSQP alone
  the function raises on line 69 (as for C1), so that there is no chain to solve with;
  and a call of \<open>solve\<close> on a chain with the four arguments of the claim raises
  \<open>TypeError\<close>, since line 111 declares no parameter for the instance.
\<close>

theorem solve_raises:
  "construct_solving_chain reg_osqp linear_min None = Inl (AttributeError ''name'') \<and>
   method_call_solve (conic_chain abs_min ecos)
     [ProblemV abs_min, BoolV False, BoolV False, DictV []] = Inl TypeError"
  by (simp add: planner_defs registry_defs problems_defs method_call_solve_def solve_def)

text \<open>
  C9. The cones computed on lines 80-89 hold \<open>SOC\<close> exactly when the class of some atom
  is in \<open>SOC_ATOMS\<close>, \<open>ExpCone\<close> exactly when one is in \<open>EXP_ATOMS\<close>, and \<open>PSD\<close> exactly
  when one is in \<open>PSD_ATOMS\<close>; each at most once, and nothing else.
\<close>

theorem required_cones_exact:
  "(SOC \<in> set (required_cones env ats) \<longleftrightarrow> (\<exists>a \<in> set ats. a \<in> set (SOC_ATOMS env))) \<and>
   (ExpCone \<in> set (required_cones env ats) \<longleftrightarrow> (\<exists>a \<in> set ats. a \<in> set (EXP_ATOMS env))) \<and>
   (PSD \<in> set (required_cones env ats) \<longleftrightarrow> (\<exists>a \<in> set ats. a \<in> set (PSD_ATOMS env))) \<and>
   set (required_cones env ats) \<subseteq> {SOC, ExpCone, PSD} \<and>
   distinct (required_cones env ats)"
  by (simp add: required_cones_def list_ex_iff)

theorem required_cones_exact_witness:
  "required_cones reg [''norm2'', ''abs'', ''lambda_max''] = [SOC, PSD] \<and>
   SOC \<in> set (required_cones reg [''norm2'', ''abs'', ''lambda_max'']) \<and>
   ExpCone \<notin> set (required_cones reg [''norm2'', ''abs'', ''lambda_max''])"
proof -
  have e: "required_cones reg [''norm2'', ''abs'', ''lambda_max''] = [SOC, PSD]"
    by (simp add: required_cones_def reg_def)
  have "SOC \<in> set (required_cones reg [''norm2'', ''abs'', ''lambda_max''])"
    using required_cones_exact [of reg "[''norm2'', ''abs'', ''lambda_max'']"]
    by (simp add: reg_def)
  moreover have "ExpCone \<notin> set (required_cones reg [''norm2'', ''abs'', ''lambda_max''])"
    using required_cones_exact [of reg "[''norm2'', ''abs'', ''lambda_max'']"]
    by (simp add: reg_def)
  ultimately show ?thesis
    using e by simp
qed

text \<open>
  C10. Lines 60-62 put the flip into \<open>reductions\<close> exactly when the class of the
  objective is \<open>Maximize\<close> itself: for an objective of a strict subclass of \<open>Maximize\<close>
  the list stays empty. The same holds of every step list that the function hands to
  the constructor: it holds the flip exactly when the class is \<open>Maximize\<close> itself.
\<close>

theorem flip_only_for_exact_Maximize:
  "(FlipObjective \<in> set (initial_reductions p) \<longleftrightarrow> objective_type p = Maximize) \<and>
   (issubclass (objective_type p) Maximize \<and> objective_type p \<noteq> Maximize \<longrightarrow>
      initial_reductions p = []) \<and>
   (\<forall>rs. chain_reductions env p requested = Inr rs \<longrightarrow>
      (FlipObjective \<in> set rs \<longleftrightarrow> objective_type p = Maximize))"
proof (intro conjI allI impI)
  show "FlipObjective \<in> set (initial_reductions p) \<longleftrightarrow> objective_type p = Maximize"
    by (simp add: initial_reductions_def)
next
  assume "issubclass (objective_type p) Maximize \<and> objective_type p \<noteq> Maximize"
  then show "initial_reductions p = []"
    by (simp add: initial_reductions_def)
next
  fix rs
  assume "chain_reductions env p requested = Inr rs"
  then obtain obj
    where "rs = initial_reductions p @ [Dcp2Cone, ConeMatrixStuffing, SolverObj obj]"
    by (rule chain_reductions_shape)
  then show "FlipObjective \<in> set rs \<longleftrightarrow> objective_type p = Maximize"
    by (simp add: initial_reductions_def)
qed

theorem flip_only_for_exact_Maximize_witness:
  "issubclass (objective_type abs_submax) Maximize \<and>
   objective_type abs_submax \<noteq> Maximize \<and>
   initial_reductions abs_submax = [] \<and>
   chain_reductions reg abs_submax None =
     Inr [Dcp2Cone, ConeMatrixStuffing, SolverObj ecos] \<and>
   FlipObjective \<notin> set [Dcp2Cone, ConeMatrixStuffing, SolverObj ecos] \<and>
   initial_reductions abs_max = [FlipObjective]"
proof -
  have r: "chain_reductions reg abs_submax None =
             Inr [Dcp2Cone, ConeMatrixStuffing, SolverObj ecos]"
    by (simp add: planner_defs registry_defs problems_defs)
  have s: "issubclass (objective_type abs_submax) Maximize"
    by (simp add: abs_submax_def)
  have t: "objective_type abs_submax \<noteq> Maximize"
    by (simp add: abs_submax_def)
  note inst = flip_only_for_exact_Maximize [of abs_submax reg None]
  from inst s t have i: "initial_reductions abs_submax = []"
    by blast
  from inst r t have f: "FlipObjective \<notin> set [Dcp2Cone, ConeMatrixStuffing, SolverObj ecos]"
    by blast
  have m: "initial_reductions abs_max = [FlipObjective]"
    by (simp add: initial_reductions_def abs_max_def)
  from r s t i f m show ?thesis
    by simp
qed

end
